theory Spec2Isabelle
  imports Complex_Main
begin

section \<open>The protobiogenesis core (biogenesis\_core.py)\<close>

text \<open>
  Python and numpy floats are modelled as \<^typ>\<open>real\<close>: arithmetic is exact, and the
  values infinity and not-a-number do not exist. Python integers are \<^typ>\<open>int\<close>.
  A Python exception is a value \<open>Inl e\<close> of the type \<open>failure + 'a\<close>. The constructor
  \<open>NaN\<close> marks the one place where numpy returns not-a-number instead of raising
  (the mean of an empty sequence): the Python continues with that value, the real-valued
  model stops there.
\<close>

datatype failure = ValueError | ZeroDivisionError | TypeError | NaN

subsection \<open>Params and Result\<close>

record Params =
  n_species :: int
  density :: real
  energy_grad :: real
  noise_level :: real
  tidal_mod_amp :: real
  membrane_threshold :: real
  membrane_leak :: real
  code_length :: int
  alphabet :: int
  base_error_rate :: real
  crit_error_threshold :: real
  f_eta :: real
  ext_periods :: "real list option"
  resonance_tolerance :: real
  trials :: int
  mode :: string

record Result =
  success_rate :: real
  mean_cycle_coherence :: real
  mean_replication_fidelity :: real
  mean_invariant_I :: real
  successes :: int
  res_trials :: int
  res_mode :: string

text \<open>The field defaults of the dataclass; \<open>ext_periods\<close> defaults to \<open>None\<close>.\<close>

definition Params_defaults :: Params where
  "Params_defaults =
     \<lparr> n_species = 20, density = 0.6, energy_grad = 1.0, noise_level = 0.25,
       tidal_mod_amp = 0.2, membrane_threshold = 0.55, membrane_leak = 0.15,
       code_length = 64, alphabet = 4, base_error_rate = 0.02,
       crit_error_threshold = 0.04, f_eta = 0.32, ext_periods = None,
       resonance_tolerance = 0.08, trials = 500, mode = ''no_field'' \<rparr>"

text \<open>
  \<open>Params.__post_init__\<close>, which the generated constructor runs on the fields it was
  given. It has no \<open>raise\<close>; the result type only makes that statable.
\<close>

definition post_init :: "Params \<Rightarrow> failure + Params" where
  "post_init self =
     (if ext_periods self = None
      then Inr (self\<lparr>ext_periods := Some [1.0, 29.5, 31025.0]\<rparr>)
      else Inr self)"

subsection \<open>Membrane and replication\<close>

definition membrane_stability :: "real \<Rightarrow> real \<Rightarrow> real \<Rightarrow> real" where
  "membrane_stability base_threshold energy noise =
     base_threshold + 0.25 * energy - 0.35 * noise"

text \<open>The local \<open>effective_error\<close> of \<open>replication_fidelity\<close>.\<close>

definition effective_error :: "int \<Rightarrow> real \<Rightarrow> real \<Rightarrow> real" where
  "effective_error code_len base_error mod_factor =
     base_error * (1.0 + 0.5 * (real_of_int code_len / 64.0)) * (1.0 - 0.6 * mod_factor)"

definition replication_fidelity :: "int \<Rightarrow> int \<Rightarrow> real \<Rightarrow> real \<Rightarrow> real" where
  "replication_fidelity code_len alph base_error mod_factor =
     max 0.0 (1.0 - effective_error code_len base_error mod_factor)"

definition invariant_I :: "real \<Rightarrow> real \<Rightarrow> failure + real" where
  "invariant_I coherence T_internal =
     (if T_internal + 1 / 10 ^ 9 = 0 then Inl ZeroDivisionError
      else Inr (coherence / (T_internal + 1 / 10 ^ 9)))"


subsection \<open>The numpy routines the module calls\<close>

text \<open>
  The generator \<open>rng\<close> is a module-level object whose hidden state every draw advances.
  The model threads that state through every function that draws: \<open>rng.random()\<close> and
  \<open>rng.normal(mu, sigma)\<close> take a generator state and return the draw with the next
  state. The bit generator itself and the eigenvalue routine belong to numpy, not to this
  module, so they are parameters: \<open>spectral_radius\<close> stands for
  \<open>np.max(np.abs(np.linalg.eigvals(adj))).real\<close> on a matrix with at least one row.
\<close>

record 'g numpy =
  default_rng :: "int \<Rightarrow> 'g"
  rng_random :: "'g \<Rightarrow> real \<times> 'g"
  rng_normal :: "real \<Rightarrow> real \<Rightarrow> 'g \<Rightarrow> real \<times> 'g"
  spectral_radius :: "real list list \<Rightarrow> real"

text \<open>The module-level \<open>rng = np.random.default_rng(42)\<close>: its state at import.\<close>

definition rng :: "'g numpy \<Rightarrow> 'g" where
  "rng np = default_rng np 42"

text \<open>\<open>rng.random((n, n))\<close> fills the array in row-major order from successive draws.\<close>

fun draws :: "('g \<Rightarrow> real \<times> 'g) \<Rightarrow> nat \<Rightarrow> 'g \<Rightarrow> real list \<times> 'g" where
  "draws f 0 g = ([], g)"
| "draws f (Suc k) g =
     (case f g of (x, g1) \<Rightarrow> case draws f k g1 of (xs, g2) \<Rightarrow> (x # xs, g2))"

fun draw_rows :: "('g \<Rightarrow> real \<times> 'g) \<Rightarrow> nat \<Rightarrow> nat \<Rightarrow> 'g \<Rightarrow> real list list \<times> 'g" where
  "draw_rows f 0 c g = ([], g)"
| "draw_rows f (Suc r) c g =
     (case draws f c g of (row, g1) \<Rightarrow>
        case draw_rows f r c g1 of (rows, g2) \<Rightarrow> (row # rows, g2))"

definition random_matrix :: "'g numpy \<Rightarrow> int \<Rightarrow> 'g \<Rightarrow> failure + (real list list \<times> 'g)" where
  "random_matrix np n g =
     (if n < 0 then Inl ValueError
      else Inr (draw_rows (rng_random np) (nat n) (nat n) g))"

definition mean :: "real list \<Rightarrow> real" where
  "mean xs = sum_list xs / real (length xs)"

text \<open>\<open>np.mean\<close> of a Python list: not-a-number (with a warning) on the empty list.\<close>

definition np_mean :: "real list \<Rightarrow> failure + real" where
  "np_mean xs = (if xs = [] then Inl NaN else Inr (mean xs))"

text \<open>Python's \<open>round\<close> on a float: to the nearest integer, a tie to the even one.\<close>

definition py_round :: "real \<Rightarrow> int" where
  "py_round x =
     (let f = \<lfloor>x\<rfloor>; d = x - of_int f
      in if d < 1 / 2 then f else if 1 / 2 < d then f + 1
         else if even f then f else f + 1)"

subsection \<open>Reaction network\<close>

definition fill_diagonal :: "real list list \<Rightarrow> real \<Rightarrow> real list list" where
  "fill_diagonal adj v = map (\<lambda>(i, row). row[i := v]) (enumerate 0 adj)"

text \<open>
  Lines 63 to 67 of \<open>build_reaction_network\<close>, on the two arrays of uniform draws:
  the weights \<open>w\<close> and the draws \<open>u\<close> that are compared with the density.
\<close>

definition network_of_draws :: "real list list \<Rightarrow> real list list \<Rightarrow> real \<Rightarrow> real list list" where
  "network_of_draws w u dens =
     (let mask = map (map (\<lambda>x. x < dens)) u;
          adj1 = map2 (map2 (\<lambda>a m. a * (if m then 1 else 0))) w mask;
          adj2 = fill_diagonal adj1 0.0
      in map (\<lambda>row. map (\<lambda>a. a / (sum_list row + 1 / 10 ^ 12)) row) adj2)"

definition build_reaction_network ::
  "'g numpy \<Rightarrow> int \<Rightarrow> real \<Rightarrow> 'g \<Rightarrow> failure + (real list list \<times> 'g)" where
  "build_reaction_network np n dens g =
     (case random_matrix np n g of Inl e \<Rightarrow> Inl e
      | Inr (w, g1) \<Rightarrow>
          (case random_matrix np n g1 of Inl e \<Rightarrow> Inl e
           | Inr (u, g2) \<Rightarrow> Inr (network_of_draws w u dens, g2)))"

subsection \<open>Cycle coherence\<close>

definition mat_mul :: "real list list \<Rightarrow> real list list \<Rightarrow> real list list" where
  "mat_mul A B =
     map (\<lambda>row. map (\<lambda>col. sum_list (map2 (*) row col)) (transpose B)) A"

definition diag :: "real list list \<Rightarrow> real list" where
  "diag A = map (\<lambda>(i, row). row ! i) (enumerate 0 A)"

text \<open>\<open>adj + np.eye(n)*1e-6\<close>: the matrix with \<open>1e-6\<close> added on its diagonal.\<close>

definition add_eye :: "real list list \<Rightarrow> real \<Rightarrow> real list list" where
  "add_eye A c = map (\<lambda>(i, row). row[i := row ! i + c]) (enumerate 0 A)"

text \<open>
  \<open>np.max\<close> of the empty eigenvalue array raises \<open>ValueError\<close>, so a network without
  species stops the trial here.
\<close>

definition evaluate_cycle_coherence ::
  "'g numpy \<Rightarrow> real list list \<Rightarrow> real \<Rightarrow> real \<Rightarrow> real \<Rightarrow> failure + (real \<times> bool)" where
  "evaluate_cycle_coherence np adj energy leak noise =
     (let n = length adj in
      if n = 0 then Inl ValueError
      else
        let radius = spectral_radius np adj;
            p = map (map (\<lambda>a. a + 1 / 10 ^ 12)) adj;
            entropy = - sum_list (map (\<lambda>row. sum_list (map (\<lambda>x. x * ln x) row)) p) / real n;
            coherence = radius * (1 + 0.6 * energy) - (0.4 * leak + 0.3 * noise);
            B = add_eye adj (1 / 10 ^ 6);
            loop_strength = mean (diag (mat_mul (mat_mul B B) B));
            has_cycle = (coherence + 0.15 * entropy + 0.5 * loop_strength > 0.85)
        in Inr (coherence, has_cycle))"

subsection \<open>Rhythms and resonance\<close>

definition inner_period :: "real list \<Rightarrow> real \<Rightarrow> nat \<Rightarrow> failure + real" where
  "inner_period periods eta levels = np_mean (map (\<lambda>T. T * eta ^ levels) periods)"

text \<open>
  The body of the loop of \<open>resonance_score\<close> for one external period. The operands are
  Python floats, so a zero divisor raises \<open>ZeroDivisionError\<close>.
\<close>

definition period_score :: "real \<Rightarrow> real \<Rightarrow> real \<Rightarrow> failure + real" where
  "period_score T_internal tol T =
     (if T_internal = 0 then Inl ZeroDivisionError
      else
        let k = max 1 (py_round (T / T_internal)) in
        if T + 1 / 10 ^ 9 = 0 then Inl ZeroDivisionError
        else
          let mismatch = \<bar>T / of_int k - T_internal\<bar> / (T + 1 / 10 ^ 9) in
          if tol = 0 then Inl ZeroDivisionError
          else Inr (max 0.0 (1.0 - mismatch / tol)))"

fun scores :: "real \<Rightarrow> real \<Rightarrow> real list \<Rightarrow> failure + real list" where
  "scores T_internal tol [] = Inr []"
| "scores T_internal tol (T # Ts) =
     (case period_score T_internal tol T of Inl e \<Rightarrow> Inl e
      | Inr s \<Rightarrow>
          (case scores T_internal tol Ts of Inl e \<Rightarrow> Inl e
           | Inr ss \<Rightarrow> Inr (s # ss)))"

definition resonance_score :: "real \<Rightarrow> real list \<Rightarrow> real \<Rightarrow> failure + real" where
  "resonance_score T_internal periods tol =
     (case scores T_internal tol periods of Inl e \<Rightarrow> Inl e
      | Inr ss \<Rightarrow> np_mean ss)"

subsection \<open>One trial\<close>

record metrics =
  m_coherence :: real
  m_fidelity :: real
  m_I :: real
  m_membrane_stability :: real
  m_T_internal :: real
  m_resonance :: real

text \<open>Steps 1 and 2 of \<open>run_trial\<close>: the network, then energy, noise and leak.\<close>

definition sample_environment ::
  "'g numpy \<Rightarrow> Params \<Rightarrow> 'g \<Rightarrow> failure + ((real list list \<times> real \<times> real \<times> real) \<times> 'g)" where
  "sample_environment np params g0 =
     (case build_reaction_network np (n_species params) (density params) g0 of
        Inl e \<Rightarrow> Inl e
      | Inr (adj, g1) \<Rightarrow>
          (case rng_normal np 0.0 0.1 g1 of (z1, g2) \<Rightarrow>
           case rng_normal np 0.0 0.2 g2 of (z2, g3) \<Rightarrow>
           case rng_normal np 0.0 0.25 g3 of (z3, g4) \<Rightarrow>
             let energy = energy_grad params * (1.0 + z1);
                 noise = max 0.0 (noise_level params * (1.0 + z2));
                 leak = max 0.0 (membrane_leak params * (1.0 + z3))
             in Inr ((adj, energy, noise, leak), g4)))"

text \<open>
  Step 4 of \<open>run_trial\<close>: internal period, resonance and modulation factor. Iterating
  over \<open>ext_periods = None\<close> raises \<open>TypeError\<close>.
\<close>

definition rhythms :: "'g numpy \<Rightarrow> Params \<Rightarrow> 'g \<Rightarrow> failure + ((real \<times> real \<times> real) \<times> 'g)" where
  "rhythms np params g =
     (if mode params = ''no_field''
      then (case rng_random np g of (u, g1) \<Rightarrow> Inr ((max 0.05 (u * 2.0), 0.0, 0.05), g1))
      else
        (case ext_periods params of None \<Rightarrow> Inl TypeError
         | Some periods \<Rightarrow>
             (case inner_period periods (f_eta params) 2 of Inl e \<Rightarrow> Inl e
              | Inr T_int \<Rightarrow>
                  (case resonance_score T_int periods (resonance_tolerance params) of
                     Inl e \<Rightarrow> Inl e
                   | Inr reson \<Rightarrow> Inr ((T_int, reson, 0.2 + 0.6 * reson), g)))))"

definition run_trial :: "'g numpy \<Rightarrow> Params \<Rightarrow> 'g \<Rightarrow> failure + ((bool \<times> metrics) \<times> 'g)" where
  "run_trial np params g0 =
     (case sample_environment np params g0 of Inl e \<Rightarrow> Inl e
      | Inr ((adj, energy, noise, leak), g1) \<Rightarrow>
          let mem_stab = membrane_stability (membrane_threshold params) energy noise in
          (case rhythms np params g1 of Inl e \<Rightarrow> Inl e
           | Inr ((T_int, reson, mod_factor), g2) \<Rightarrow>
               (case evaluate_cycle_coherence np adj energy leak noise of Inl e \<Rightarrow> Inl e
                | Inr (coherence, has_cycle) \<Rightarrow>
                    let holds = (mem_stab > 0.5 \<and> has_cycle);
                        fidelity = replication_fidelity (code_length params) (alphabet params)
                                     (base_error_rate params) mod_factor;
                        error_ok = (1.0 - fidelity < crit_error_threshold params)
                    in (case invariant_I coherence T_int of Inl e \<Rightarrow> Inl e
                        | Inr Ival \<Rightarrow>
                            Inr ((holds \<and> error_ok,
                                  \<lparr> m_coherence = coherence, m_fidelity = fidelity,
                                    m_I = Ival, m_membrane_stability = mem_stab,
                                    m_T_internal = T_int, m_resonance = reson \<rparr>), g2)))))"

subsection \<open>Monte Carlo aggregation\<close>

text \<open>
  The \<open>for\<close> loop of \<open>run_simulation\<close> with its four accumulators;
  \<open>range(trials)\<close> is empty for a trial count of zero or less.
\<close>

fun trial_loop ::
  "'g numpy \<Rightarrow> Params \<Rightarrow> nat \<Rightarrow> 'g \<Rightarrow> int \<Rightarrow> real list \<Rightarrow> real list \<Rightarrow> real list \<Rightarrow>
     failure + ((int \<times> real list \<times> real list \<times> real list) \<times> 'g)" where
  "trial_loop np params 0 g succ coh_list fid_list I_list =
     Inr ((succ, coh_list, fid_list, I_list), g)"
| "trial_loop np params (Suc k) g succ coh_list fid_list I_list =
     (case run_trial np params g of Inl e \<Rightarrow> Inl e
      | Inr ((success, m), g1) \<Rightarrow>
          trial_loop np params k g1 (if success then succ + 1 else succ)
            (coh_list @ [m_coherence m]) (fid_list @ [m_fidelity m]) (I_list @ [m_I m]))"

definition run_simulation :: "'g numpy \<Rightarrow> Params \<Rightarrow> 'g \<Rightarrow> failure + (Result \<times> 'g)" where
  "run_simulation np params g =
     (case trial_loop np params (nat (trials params)) g 0 [] [] [] of Inl e \<Rightarrow> Inl e
      | Inr ((succ, coh_list, fid_list, I_list), g1) \<Rightarrow>
          if trials params = 0 then Inl ZeroDivisionError
          else
            let sr = real_of_int succ / real_of_int (trials params)
            in Inr (\<lparr> success_rate = sr,
                      mean_cycle_coherence = (if coh_list \<noteq> [] then mean coh_list else 0.0),
                      mean_replication_fidelity = (if fid_list \<noteq> [] then mean fid_list else 0.0),
                      mean_invariant_I = (if I_list \<noteq> [] then mean I_list else 0.0),
                      successes = succ, res_trials = trials params,
                      res_mode = mode params \<rparr>, g1))"

subsection \<open>Well-formed parameters\<close>

text \<open>
  The value ranges the specification gives for the fields of \<open>Params\<close>. The code checks
  none of them; they are the domain on which the properties below are stated.
\<close>

definition well_formed :: "Params \<Rightarrow> bool" where
  "well_formed p =
     (1 \<le> n_species p \<and> 0 \<le> density p \<and> density p \<le> 1 \<and> 0 \<le> energy_grad p \<and>
      0 \<le> noise_level p \<and> 0 \<le> membrane_leak p \<and> 1 \<le> code_length p \<and> 2 \<le> alphabet p \<and>
      0 \<le> base_error_rate p \<and> base_error_rate p \<le> 1 \<and>
      0 \<le> crit_error_threshold p \<and> crit_error_threshold p \<le> 1 \<and>
      0 < f_eta p \<and> f_eta p < 1 \<and>
      (case ext_periods p of None \<Rightarrow> False
       | Some periods \<Rightarrow> periods \<noteq> [] \<and> list_all (\<lambda>T. 0 < T) periods) \<and>
      0 < resonance_tolerance p \<and> 1 \<le> trials p \<and>
      (mode p = ''no_field'' \<or> mode p = ''field''))"

subsection \<open>Notions used to state the properties\<close>



subsection \<open>A generator for concrete runs\<close>

text \<open>
  A stand-in for numpy on which the functions above can be evaluated: the generator state
  is the list of the draws still to come (standard-normal ones for \<open>normal\<close>), zero once
  the list is used up; a uniform draw outside [0,1) reads as 0. The spectral radius is
  that of a row-stochastic matrix.
\<close>

definition tape_numpy :: "real list numpy" where
  "tape_numpy =
     \<lparr> default_rng = (\<lambda>seed. []),
       rng_random = (\<lambda>g. case g of [] \<Rightarrow> (0, [])
                          | x # xs \<Rightarrow> (if 0 \<le> x \<and> x < 1 then x else 0, xs)),
       rng_normal = (\<lambda>mu sigma g. case g of [] \<Rightarrow> (mu, []) | z # zs \<Rightarrow> (mu + sigma * z, zs)),
       spectral_radius = (\<lambda>adj. 1) \<rparr>"


section \<open>Properties\<close>

subsection \<open>Shapes and results of the building blocks\<close>

lemma length_draws: "length (fst (draws f k g)) = k"
proof (induction k arbitrary: g)
  case 0
  then show ?case by simp
next
  case (Suc k)
  obtain x g1 where f: "f g = (x, g1)" by (cases "f g")
  obtain xs g2 where d: "draws f k g1 = (xs, g2)" by (cases "draws f k g1")
  show ?case using Suc [of g1] f d by simp
qed

lemma length_draw_rows: "length (fst (draw_rows f r c g)) = r"
proof (induction r arbitrary: g)
  case 0
  then show ?case by simp
next
  case (Suc r)
  obtain row g1 where f: "draws f c g = (row, g1)" by (cases "draws f c g")
  obtain rows g2 where d: "draw_rows f r c g1 = (rows, g2)" by (cases "draw_rows f r c g1")
  show ?case using Suc [of g1] f d by simp
qed

lemma draw_rows_row_length: "row \<in> set (fst (draw_rows f r c g)) \<Longrightarrow> length row = c"
proof (induction r arbitrary: g)
  case 0
  then show ?case by simp
next
  case (Suc r)
  obtain row0 g1 where d: "draws f c g = (row0, g1)" by (cases "draws f c g")
  obtain rows g2 where r: "draw_rows f r c g1 = (rows, g2)" by (cases "draw_rows f r c g1")
  have "length row0 = c" using length_draws [of f c g] d by simp
  moreover have "row \<in> set rows \<Longrightarrow> length row = c" using Suc.IH [of g1] r by simp
  ultimately show ?case using Suc.prems d r by auto
qed

lemma length_fill_diagonal: "length (fill_diagonal A v) = length A"
  by (simp add: fill_diagonal_def)

lemma length_network_of_draws:
  "length (network_of_draws w u d) = min (length w) (length u)"
  by (simp add: network_of_draws_def length_fill_diagonal)

lemma random_matrix_ok:
  assumes "0 \<le> n"
  shows "\<exists>w g1. random_matrix np n g = Inr (w, g1) \<and> length w = nat n \<and> (\<forall>row\<in>set w. length row = nat n)"
proof -
  obtain w g1 where d: "draw_rows (rng_random np) (nat n) (nat n) g = (w, g1)"
    by (cases "draw_rows (rng_random np) (nat n) (nat n) g")
  have "length w = nat n" using length_draw_rows [of "rng_random np" "nat n" "nat n" g] d by simp
  moreover have "\<forall>row\<in>set w. length row = nat n"
    using draw_rows_row_length [of _ "rng_random np" "nat n" "nat n" g] d by simp
  ultimately show ?thesis using assms d by (simp add: random_matrix_def)
qed

lemma build_reaction_network_ok:
  assumes "0 \<le> n"
  shows "\<exists>adj g'. build_reaction_network np n d g = Inr (adj, g') \<and> length adj = nat n"
proof -
  obtain w g1 where w: "random_matrix np n g = Inr (w, g1)" "length w = nat n"
    using random_matrix_ok [OF assms, of np g] by blast
  obtain u g2 where u: "random_matrix np n g1 = Inr (u, g2)" "length u = nat n"
    using random_matrix_ok [OF assms, of np g1] by blast
  show ?thesis using w u by (simp add: build_reaction_network_def length_network_of_draws)
qed

lemma sample_environment_ok:
  assumes "0 \<le> n_species p"
  shows "\<exists>adj energy noise leak g'.
           sample_environment np p g = Inr ((adj, energy, noise, leak), g') \<and>
           length adj = nat (n_species p)"
proof -
  obtain adj g1 where b: "build_reaction_network np (n_species p) (density p) g = Inr (adj, g1)"
      "length adj = nat (n_species p)"
    using build_reaction_network_ok [OF assms, of np "density p" g] by blast
  show ?thesis using b
    by (simp add: sample_environment_def Let_def split: prod.splits)
qed

lemma evaluate_cycle_coherence_ok:
  assumes "adj \<noteq> []"
  shows "\<exists>c h. evaluate_cycle_coherence np adj energy leak noise = Inr (c, h)"
  using assms by (simp add: evaluate_cycle_coherence_def Let_def)

lemma py_round_of_int: "py_round (of_int m) = m"
  by (simp add: py_round_def)

lemma period_score_exact:
  assumes "T_internal \<noteq> 0" "tol \<noteq> 0" "T + 1 / 10 ^ 9 \<noteq> 0" "1 \<le> m" "T = of_int m * T_internal"
  shows "period_score T_internal tol T = Inr 1"
proof -
  have q: "T / T_internal = of_int m" using assms(1,5) by simp
  have k: "max 1 (py_round (T / T_internal)) = m"
    using assms(4) by (simp add: q py_round_of_int)
  have "T / of_int m = T_internal" using assms(4,5) by simp
  then show ?thesis
    using assms(1,2,3) unfolding period_score_def k by (simp add: Let_def)
qed



lemma scores_exact:
  assumes "T_internal \<noteq> 0" "tol \<noteq> 0"
    and "\<forall>T\<in>set ps. T + 1 / 10 ^ 9 \<noteq> 0 \<and> (\<exists>m::int. 1 \<le> m \<and> T = of_int m * T_internal)"
  shows "scores T_internal tol ps = Inr (replicate (length ps) 1)"
  using assms(3)
proof (induction ps)
  case Nil
  then show ?case by simp
next
  case (Cons T Ts)
  obtain m :: int where m: "1 \<le> m" "T = of_int m * T_internal" and nz: "T + 1 / 10 ^ 9 \<noteq> 0"
    using Cons.prems by auto
  have "period_score T_internal tol T = Inr 1"
    using assms(1,2) nz m by (rule period_score_exact)
  moreover have "scores T_internal tol Ts = Inr (replicate (length Ts) 1)"
    using Cons by simp
  ultimately show ?case by simp
qed

lemma mean_replicate_one: "0 < n \<Longrightarrow> mean (replicate n 1) = 1"
  by (simp add: mean_def sum_list_replicate)







lemma rhythms_no_field:
  assumes "mode p = ''no_field''"
  shows "\<exists>T g1. rhythms np p g = Inr ((T, 0, 0.05), g1) \<and> 0.05 \<le> T"
proof -
  obtain u g1 where "rng_random np g = (u, g1)" by (cases "rng_random np g")
  then show ?thesis using assms by (simp add: rhythms_def)
qed


lemma run_trial_result:
  assumes "sample_environment np p g0 = Inr ((adj, energy, noise, leak), g1)"
    and "rhythms np p g1 = Inr ((T, reson, mf), g2)"
    and "evaluate_cycle_coherence np adj energy leak noise = Inr (coh, has_cycle)"
    and "T + 1 / 10 ^ 9 \<noteq> 0"
  shows "run_trial np p g0 =
     Inr (((membrane_stability (membrane_threshold p) energy noise > 0.5 \<and> has_cycle) \<and>
             1.0 - replication_fidelity (code_length p) (alphabet p) (base_error_rate p) mf
               < crit_error_threshold p,
           \<lparr> m_coherence = coh,
             m_fidelity = replication_fidelity (code_length p) (alphabet p) (base_error_rate p) mf,
             m_I = coh / (T + 1 / 10 ^ 9),
             m_membrane_stability = membrane_stability (membrane_threshold p) energy noise,
             m_T_internal = T, m_resonance = reson \<rparr>), g2)"
  using assms by (simp add: run_trial_def invariant_I_def Let_def)




























subsection \<open>Replication fidelity\<close>

lemma effective_error_nonneg:
  assumes "1 \<le> c" "0 \<le> b" "m \<le> 0.8"
  shows "0 \<le> effective_error c b m"
proof -
  have "0 \<le> 1.0 + 0.5 * (real_of_int c / 64.0)" using assms(1) by simp
  moreover have "0 \<le> 1.0 - 0.6 * m" using assms(3) by simp
  ultimately show ?thesis
    unfolding effective_error_def using assms(2) by (intro mult_nonneg_nonneg) simp_all
qed

text \<open>
  C9. For a code length of at least 1, a base error in [0,1] and a modulation factor in
  [0, 0.8], \<open>replication_fidelity\<close> returns a value in the closed interval [0,1].
\<close>

theorem replication_fidelity_range:
  assumes "1 \<le> c" and "0 \<le> b" and "b \<le> 1" and "0 \<le> m" and "m \<le> 0.8"
  shows "0 \<le> replication_fidelity c a b m \<and> replication_fidelity c a b m \<le> 1"
proof -
  have "0 \<le> effective_error c b m"
    using assms(1,2,5) by (rule effective_error_nonneg)
  then show ?thesis by (simp add: replication_fidelity_def)
qed

theorem replication_fidelity_range_witness:
  "0 \<le> replication_fidelity 64 4 0.02 0.05 \<and> replication_fidelity 64 4 0.02 0.05 \<le> 1"
  using replication_fidelity_range [of 64 "0.02" "0.05" 4] by simp

text \<open>
  C8. With the factor \<open>1 - 0.6 * mod_factor\<close> non-negative, \<open>replication_fidelity\<close>
  is non-increasing in the base error (for a code length of at least 1) and non-increasing
  in the code length (for a non-negative base error), the other arguments held fixed.
\<close>

theorem replication_fidelity_mono:
  "(1 \<le> c \<and> 0 \<le> 1 - 0.6 * m \<and> b1 \<le> b2 \<longrightarrow>
      replication_fidelity c a b2 m \<le> replication_fidelity c a b1 m) \<and>
   (0 \<le> b \<and> 0 \<le> 1 - 0.6 * m \<and> c1 \<le> c2 \<longrightarrow>
      replication_fidelity c2 a b m \<le> replication_fidelity c1 a b m)"
proof (intro conjI impI)
  assume h: "1 \<le> c \<and> 0 \<le> 1 - 0.6 * m \<and> b1 \<le> b2"
  have f1: "0 \<le> 1.0 + 0.5 * (real_of_int c / 64.0)" using h by simp
  have f2: "0 \<le> 1.0 - 0.6 * m" using h by simp
  have "b1 * (1.0 + 0.5 * (real_of_int c / 64.0)) \<le> b2 * (1.0 + 0.5 * (real_of_int c / 64.0))"
    using h f1 by (intro mult_right_mono) simp_all
  then have "effective_error c b1 m \<le> effective_error c b2 m"
    unfolding effective_error_def using f2 by (rule mult_right_mono)
  then show "replication_fidelity c a b2 m \<le> replication_fidelity c a b1 m"
    by (simp add: replication_fidelity_def)
next
  assume h: "0 \<le> b \<and> 0 \<le> 1 - 0.6 * m \<and> c1 \<le> c2"
  have f2: "0 \<le> 1.0 - 0.6 * m" using h by simp
  have "1.0 + 0.5 * (real_of_int c1 / 64.0) \<le> 1.0 + 0.5 * (real_of_int c2 / 64.0)"
    using h by simp
  then have "b * (1.0 + 0.5 * (real_of_int c1 / 64.0)) \<le> b * (1.0 + 0.5 * (real_of_int c2 / 64.0))"
    using h by (intro mult_left_mono) simp_all
  then have "effective_error c1 b m \<le> effective_error c2 b m"
    unfolding effective_error_def using f2 by (rule mult_right_mono)
  then show "replication_fidelity c2 a b m \<le> replication_fidelity c1 a b m"
    by (simp add: replication_fidelity_def)
qed

theorem replication_fidelity_mono_witness:
  "replication_fidelity 64 4 0.02 0.05 \<le> replication_fidelity 64 4 0.01 0.05 \<and>
   replication_fidelity 128 4 0.02 0.05 \<le> replication_fidelity 64 4 0.02 0.05"
  using replication_fidelity_mono [of 64 "0.05" "0.01" "0.02" 4 "0.02" 64 128] by simp

subsection \<open>Resonance\<close>

text \<open>
  C6. If every external period is an exact positive-integer multiple of the internal
  period, \<open>resonance_score\<close> returns exactly 1. The side conditions are those under
  which the function returns a number at all: a non-empty period list, a non-zero
  tolerance and internal period, and no period equal to \<open>-1e-9\<close>; the value ranges of
  \<open>Params\<close> (positive periods, positive tolerance) imply them.
\<close>

theorem resonance_score_exact:
  assumes "periods \<noteq> []" and "tol \<noteq> 0" and "T_internal \<noteq> 0"
    and "\<forall>T\<in>set periods. T + 1 / 10 ^ 9 \<noteq> 0 \<and> (\<exists>m::int. 1 \<le> m \<and> T = of_int m * T_internal)"
  shows "resonance_score T_internal periods tol = Inr 1"
proof -
  have "scores T_internal tol periods = Inr (replicate (length periods) 1)"
    using assms(3,2,4) by (rule scores_exact)
  then show ?thesis
    using assms(1) by (simp add: resonance_score_def np_mean_def mean_replicate_one)
qed

theorem resonance_score_exact_witness:
  "resonance_score 0.25 [1.0, 29.5] 0.08 = Inr 1"
proof -
  have "\<forall>T\<in>set [1.0, 29.5::real]. T + 1 / 10 ^ 9 \<noteq> 0 \<and> (\<exists>m::int. 1 \<le> m \<and> T = of_int m * 0.25)"
  proof -
    have "(1.0::real) = of_int 4 * 0.25" by simp
    moreover have "(29.5::real) = of_int 118 * 0.25" by simp
    ultimately have "(\<exists>m::int. 1 \<le> m \<and> (1.0::real) = of_int m * 0.25)" 
         "(\<exists>m::int. 1 \<le> m \<and> (29.5::real) = of_int m * 0.25)"
      by (metis one_le_numeral)+
    then show ?thesis by simp
  qed
  then show ?thesis
    using resonance_score_exact [of "[1.0, 29.5]" "0.08" "0.25"] by simp
qed

subsection \<open>The decision of a trial\<close>



text \<open>
  C7. In mode \<open>no_field\<close> every trial that \<open>run_trial\<close> produces has resonance 0 in
  its metrics, and with at least one species a trial is always produced.
\<close>

theorem run_trial_no_field_resonance:
  assumes "mode params = ''no_field''"
  shows "(\<forall>s m g'. run_trial np params g = Inr ((s, m), g') \<longrightarrow> m_resonance m = 0) \<and>
         (1 \<le> n_species params \<longrightarrow>
            (\<exists>s m g'. run_trial np params g = Inr ((s, m), g') \<and> m_resonance m = 0))"
proof (intro conjI allI impI)
  fix s m g'
  assume r: "run_trial np params g = Inr ((s, m), g')"
  obtain adj energy noise leak g1 where
    env: "sample_environment np params g = Inr ((adj, energy, noise, leak), g1)"
    using r by (auto simp: run_trial_def split: sum.splits)
  obtain T g2 where rh: "rhythms np params g1 = Inr ((T, 0, 0.05), g2)" and T: "0.05 \<le> T"
    using rhythms_no_field [OF assms, of np g1] by blast
  obtain coh hc where ev: "evaluate_cycle_coherence np adj energy leak noise = Inr (coh, hc)"
    using r env rh by (auto simp: run_trial_def Let_def split: sum.splits)
  have nz: "T + 1 / 10 ^ 9 \<noteq> 0" using T by simp
  show "m_resonance m = 0"
    using r run_trial_result [OF env rh ev nz] by auto
next
  assume n: "1 \<le> n_species params"
  obtain adj energy noise leak g1 where
    env: "sample_environment np params g = Inr ((adj, energy, noise, leak), g1)"
    and len: "length adj = nat (n_species params)"
    using sample_environment_ok [of params np g] n by auto
  obtain T g2 where rh: "rhythms np params g1 = Inr ((T, 0, 0.05), g2)" and T: "0.05 \<le> T"
    using rhythms_no_field [OF assms, of np g1] by blast
  have "adj \<noteq> []" using len n by auto
  then obtain coh hc where ev: "evaluate_cycle_coherence np adj energy leak noise = Inr (coh, hc)"
    using evaluate_cycle_coherence_ok [of adj np energy leak noise] by blast
  have nz: "T + 1 / 10 ^ 9 \<noteq> 0" using T by simp
  show "\<exists>s m g'. run_trial np params g = Inr ((s, m), g') \<and> m_resonance m = 0"
    using run_trial_result [OF env rh ev nz] by simp
qed

theorem run_trial_no_field_resonance_witness:
  "mode Params_defaults = ''no_field'' \<and> 1 \<le> n_species Params_defaults \<and>
   (\<exists>s m g'. run_trial tape_numpy Params_defaults [] = Inr ((s, m), g') \<and> m_resonance m = 0)"
proof -
  have m: "mode Params_defaults = ''no_field''" by (simp add: Params_defaults_def)
  have n: "1 \<le> n_species Params_defaults" by (simp add: Params_defaults_def)
  show ?thesis
    using m n run_trial_no_field_resonance [OF m, of tape_numpy "[]"] by blast
qed



subsection \<open>The reaction network\<close>





subsection \<open>Determinism\<close>



subsection \<open>Construction of Params\<close>

text \<open>
  C3 (as amended). Constructing a \<open>Params\<close> never raises and checks no field:
  \<open>__post_init__\<close> only replaces a missing \<open>ext_periods\<close> by \<open>[1.0, 29.5, 31025.0]\<close>
  and keeps every field it was given, malformed or not.
\<close>

theorem post_init_never_raises:
  "post_init p =
     Inr (p\<lparr>ext_periods :=
              Some (case ext_periods p of None \<Rightarrow> [1.0, 29.5, 31025.0] | Some ps \<Rightarrow> ps)\<rparr>)"
  by (cases "ext_periods p") (simp_all add: post_init_def)

text \<open>
  The claim as stated fails: zero species, an empty period list and a zero tolerance are
  all accepted by the constructor.
\<close>

theorem post_init_accepts_malformed:
  "\<not> well_formed (Params_defaults\<lparr>n_species := 0, ext_periods := Some [],
                                   resonance_tolerance := 0\<rparr>) \<and>
   post_init (Params_defaults\<lparr>n_species := 0, ext_periods := Some [],
                               resonance_tolerance := 0\<rparr>) =
     Inr (Params_defaults\<lparr>n_species := 0, ext_periods := Some [], resonance_tolerance := 0\<rparr>)"
  by (simp add: post_init_def Params_defaults_def well_formed_def)

text \<open>
  A malformed field surfaces only inside a trial: with no species the network is drawn,
  the environment is sampled, and the cycle evaluator then raises \<open>ValueError\<close>.
\<close>

lemma run_trial_zero_species:
  assumes "n_species p = 0" and "mode p = ''no_field''"
  shows "run_trial np p g = Inl ValueError"
proof -
  have b: "build_reaction_network np 0 (density p) g = Inr ([], g)"
    by (simp add: build_reaction_network_def random_matrix_def network_of_draws_def
        fill_diagonal_def)
  obtain z1 h1 where z1: "rng_normal np 0.0 0.1 g = (z1, h1)"
    by (cases "rng_normal np 0.0 0.1 g")
  obtain z2 h2 where z2: "rng_normal np 0.0 0.2 h1 = (z2, h2)"
    by (cases "rng_normal np 0.0 0.2 h1")
  obtain z3 g1 where z3: "rng_normal np 0.0 0.25 h2 = (z3, g1)"
    by (cases "rng_normal np 0.0 0.25 h2")
  obtain energy noise leak where
    env: "sample_environment np p g = Inr (([], energy, noise, leak), g1)"
    using assms(1) b z1 z2 z3 by (simp add: sample_environment_def Let_def)
  obtain T g2 where rh: "rhythms np p g1 = Inr ((T, 0, 0.05), g2)"
    using rhythms_no_field [OF assms(2), of np g1] by blast
  show ?thesis
    by (simp add: run_trial_def env rh evaluate_cycle_coherence_def)
qed

subsection \<open>Aggregation\<close>

text \<open>
  C2. With \<open>trials = 0\<close> the loop body never runs and the division
  \<open>successes / params.trials\<close> raises \<open>ZeroDivisionError\<close>: no \<open>Result\<close> is returned,
  although the three means are guarded against empty lists.
\<close>

theorem run_simulation_zero_trials:
  "run_simulation np (params\<lparr>trials := 0\<rparr>) g = Inl ZeroDivisionError"
  by (simp add: run_simulation_def)

end
